theory Spec2Isabelle
  imports Main "HOL-Library.Word"
begin

section \<open>Python values and errors\<close>

text \<open>
  Exceptions are values. \<open>FileNotFoundError\<close> and \<open>IsADirectoryError\<close> are subclasses
  of \<open>OSError\<close>, which matters for \<open>except OSError\<close>.
\<close>

datatype py_error =
    KeyError string
  | TypeError
  | ValueError string
  | OSError
  | FileNotFoundError
  | IsADirectoryError
  | UnpicklingError
  | ConfigurationError string

text \<open>
  The steps exchange untyped Python values (\<open>typing.Any\<close>): checkpoint metadata, the
  value given as \<open>supported_input_steps\<close>, results of wrapped functions. The fragment
  used here: \<open>None\<close>, booleans, integers, strings, lists, dictionaries with string
  keys, class objects and generic aliases. A dictionary is an association list in
  insertion order; its keys are distinct, and a lookup takes the entry of the key. A
  class object has its name and what subscripting it by a string does: most classes
  raise \<open>TypeError\<close>; \<open>dict\<close>, \<open>list\<close> and the other generic classes give a generic
  alias since Python 3.9, as \<open>dict['x']\<close>, kept as the name of the class and the
  string; an enumeration gives its member of that name or raises \<open>KeyError\<close>.
\<close>

datatype pyval =
    PNone
  | PBool bool
  | PInt int
  | PStr string
  | PClass string "string \<Rightarrow> py_error + pyval"
  | PGenericAlias string string
  | PList "pyval list"
  | PDict "(string \<times> pyval) list"

fun is_OSError :: "py_error \<Rightarrow> bool" where
  "is_OSError OSError = True"
| "is_OSError FileNotFoundError = True"
| "is_OSError IsADirectoryError = True"
| "is_OSError _ = False"

text \<open>
  \<open>value[key]\<close> with a string key: on a dictionary the entry or \<open>KeyError\<close>; on a
  class what the class does; \<open>None\<close>, booleans, integers, strings (whose indices must
  be integers), lists (the same) and generic aliases (which have no type variable left)
  raise \<open>TypeError\<close>.
\<close>

fun py_getitem :: "pyval \<Rightarrow> string \<Rightarrow> py_error + pyval" where
  "py_getitem (PDict kvs) key =
     (case map_of kvs key of None \<Rightarrow> Inl (KeyError key) | Some v \<Rightarrow> Inr v)"
| "py_getitem (PClass name getitem) key = getitem key"
| "py_getitem _ key = Inl TypeError"

text \<open>
  \<open>h == value\<close> for an integer \<open>h\<close>: equal integers, and \<open>True == 1\<close>, \<open>False == 0\<close>
  (\<open>bool\<close> is a subclass of \<open>int\<close>); an integer never equals \<open>None\<close>, a string, a
  class, a generic alias, a list or a dictionary.
\<close>

fun py_int_eq :: "int \<Rightarrow> pyval \<Rightarrow> bool" where
  "py_int_eq h (PInt j) = (h = j)"
| "py_int_eq h (PBool b) = (h = (if b then 1 else 0))"
| "py_int_eq h _ = False"

text \<open>The truth value of a Python value, as \<open>bool(value)\<close> and \<open>if value:\<close> take it.\<close>

fun py_truthy :: "pyval \<Rightarrow> bool" where
  "py_truthy PNone = False"
| "py_truthy (PBool b) = b"
| "py_truthy (PInt i) = (i \<noteq> 0)"
| "py_truthy (PStr s) = (s \<noteq> [])"
| "py_truthy (PClass c getitem) = True"
| "py_truthy (PGenericAlias c key) = True"
| "py_truthy (PList xs) = (xs \<noteq> [])"
| "py_truthy (PDict kvs) = (kvs \<noteq> [])"

text \<open>
  A callable with effects takes the state of the world (files, globals, random
  generators) and returns its outcome with the new state.
\<close>

type_synonym ('w, 'a) effect = "'w \<Rightarrow> (py_error + 'a) \<times> 'w"

section \<open>Argument schema (arguments of \<open>get_arguments\<close>)\<close>

datatype constraint_expr =
    ArgumentRef string
  | Constant string
  | Equal constraint_expr constraint_expr

datatype argument =
    EnumArgument string string "string list"
  | StringArgument string string "constraint_expr option"

section \<open>Files, \<open>pickle\<close> and \<open>numpy\<close> persistence\<close>

text \<open>
  The file system is a map from path names to the contents of regular files, with the
  set of paths that \<open>open(path, 'wb')\<close> can create or truncate (the directory exists,
  the path is not a directory, the permissions allow it). A content stands for the
  bytes a serialiser wrote: the value and the format it was written in. Both libraries
  are taken to read back what they wrote themselves.
\<close>

datatype ('p, 'n) content = Pickled 'p | Npy 'n

record ('p, 'n) filesystem =
  files :: "string \<rightharpoonup> ('p, 'n) content"
  writable :: "string \<Rightarrow> bool"

text \<open>\<open>with open(path, 'wb') as file: pickle.dump(result, file)\<close>\<close>

definition pickle_dump_file ::
  "string \<Rightarrow> 'p \<Rightarrow> (('p, 'n) filesystem, unit) effect" where
  "pickle_dump_file path result fs =
     (if writable fs path
      then (Inr (), fs\<lparr>files := (files fs)(path \<mapsto> Pickled result)\<rparr>)
      else (Inl OSError, fs))"

text \<open>\<open>with open(path, 'rb') as file: return pickle.load(file)\<close>\<close>

definition pickle_load_file ::
  "string \<Rightarrow> (('p, 'n) filesystem, 'p) effect" where
  "pickle_load_file path fs =
     (case files fs path of
        None \<Rightarrow> (Inl FileNotFoundError, fs)
      | Some (Pickled v) \<Rightarrow> (Inr v, fs)
      | Some (Npy a) \<Rightarrow> (Inl UnpicklingError, fs))"

definition endswith :: "string \<Rightarrow> string \<Rightarrow> bool" where
  "endswith s suffix =
     (length suffix \<le> length s \<and> drop (length s - length suffix) s = suffix)"

text \<open>
  \<open>numpy.save(file, arr)\<close> with a file name: NumPy appends the extension \<open>.npy\<close> to
  the name when the name does not already end with it, and writes there.
\<close>

definition numpy_save :: "string \<Rightarrow> 'n \<Rightarrow> (('p, 'n) filesystem, unit) effect" where
  "numpy_save path arr fs =
     (let file = (if endswith path ''.npy'' then path else path @ ''.npy'')
      in if writable fs file
         then (Inr (), fs\<lparr>files := (files fs)(file \<mapsto> Npy arr)\<rparr>)
         else (Inl OSError, fs))"

text \<open>
  \<open>numpy.load(file)\<close> opens the name as it is given. A file that is not in NumPy's
  format is taken for a pickle, which the default \<open>allow_pickle=False\<close> refuses.
\<close>

definition numpy_load :: "string \<Rightarrow> (('p, 'n) filesystem, 'n) effect" where
  "numpy_load path fs =
     (case files fs path of
        None \<Rightarrow> (Inl FileNotFoundError, fs)
      | Some (Npy a) \<Rightarrow> (Inr a, fs)
      | Some (Pickled v) \<Rightarrow>
          (Inl (ValueError ''Cannot load file containing pickled data when allow_pickle=False''), fs))"

text \<open>\<open>os.path.join(a, b)\<close> for two components, on POSIX.\<close>

definition os_path_join :: "string \<Rightarrow> string \<Rightarrow> string" where
  "os_path_join a b =
     (if take 1 b = ''/'' then b
      else if a = [] \<or> endswith a ''/'' then a @ b
      else a @ ''/'' @ b)"

text \<open>Saving and then loading at the same location, stopping at the first error.\<close>

definition save_then_load ::
  "(string \<Rightarrow> 'r \<Rightarrow> ('w, unit) effect) \<Rightarrow> (string \<Rightarrow> ('w, 'r) effect) \<Rightarrow>
   string \<Rightarrow> 'r \<Rightarrow> ('w, 'r) effect" where
  "save_then_load save load path result w =
     (case save path result w of
        (Inl e, w') \<Rightarrow> (Inl e, w')
      | (Inr u, w') \<Rightarrow> load path w')"

section \<open>\<open>misc/func.py\<close>: the function-to-step adapter\<close>

definition pickle_loader :: "string \<Rightarrow> (('p, 'n) filesystem, 'p) effect" where
  "pickle_loader path = pickle_load_file path"

definition pickle_saver :: "string \<Rightarrow> 'p \<Rightarrow> (('p, 'n) filesystem, unit) effect" where
  "pickle_saver path result = pickle_dump_file path result"

text \<open>An instance of a step: the pipeline gives it its configuration, \<open>self.config\<close>.\<close>

record 'c step_instance =
  i_config :: 'c

text \<open>
  A Python function object as the decorator sees it: its \<open>__name__\<close>, what
  \<open>inspect.getsource\<close> does on it (the source text, or the exception raised), and its
  behaviour when called as \<open>func(self, *inputs, conf=...)\<close>: with the instance as first
  positional argument, then the inputs, and the keyword \<open>conf\<close>.
\<close>

record ('w, 'c) pyfunction =
  fn_name :: string
  fn_getsource :: "py_error + string"
  fn_call :: "'c step_instance \<Rightarrow> pyval list \<Rightarrow> 'c \<Rightarrow> ('w, pyval) effect"

text \<open>
  The class built by \<open>type(...)\<close> in \<open>decorator\<close>: its name, its marker base classes and
  the eight injected attributes (\<open>$_function\<close>, \<open>$_save_function\<close>, ...).
\<close>

record ('w, 'c) function_step =
  s_name :: string
  s_marker_classes :: "string list"
  s_function :: "('w, 'c) pyfunction"
  s_save_function :: "string \<Rightarrow> pyval \<Rightarrow> ('w, unit) effect"
  s_load_function :: "string \<Rightarrow> ('w, pyval) effect"
  s_pure :: bool
  s_arguments :: "(string \<times> argument) list"
  s_constraints :: "constraint_expr list"
  s_supported_inputs :: pyval
  s_hash :: "int option"

text \<open>
  \<open>pipeline_step(...)(func)\<close>. The built-in \<open>hash\<close> on a string is a parameter
  \<open>py_hash\<close>: a machine word (\<open>Py_hash_t\<close>, 64 bits), read as a signed integer, fixed
  within one interpreter process. \<open>inspect.getsource\<close> raising \<open>OSError\<close> gives
  \<open>source = None\<close>; any other exception leaves the decorator.
\<close>

definition pipeline_step ::
  "(string \<Rightarrow> pyval \<Rightarrow> ('w, unit) effect) \<Rightarrow> (string \<Rightarrow> ('w, pyval) effect) \<Rightarrow> pyval \<Rightarrow>
   string list \<Rightarrow> bool \<Rightarrow> (string \<times> argument) list option \<Rightarrow> constraint_expr list option \<Rightarrow>
   (string \<Rightarrow> 64 word) \<Rightarrow> ('w, 'c) pyfunction \<Rightarrow> py_error + ('w, 'c) function_step" where
  "pipeline_step save_func load_func supported_input_steps marker_classes is_pure
     arguments constraints py_hash func =
   (case (case fn_getsource func of
            Inr text \<Rightarrow> Inr (Some text)
          | Inl e \<Rightarrow> if is_OSError e then Inr None else Inl e) of
      Inl e \<Rightarrow> Inl e
    | Inr source \<Rightarrow>
        (let hash_value = (case source of Some text \<Rightarrow> Some (sint (py_hash text)) | None \<Rightarrow> None)
         in Inr \<lparr> s_name = ''FunctionStepWrapper_'' @ fn_name func,
                  s_marker_classes = marker_classes,
                  s_function = func,
                  s_save_function = save_func,
                  s_load_function = load_func,
                  s_pure = is_pure,
                  s_arguments = (case arguments of Some a \<Rightarrow> a | None \<Rightarrow> []),
                  s_constraints = (case constraints of Some c \<Rightarrow> c | None \<Rightarrow> []),
                  s_supported_inputs = supported_input_steps,
                  s_hash = hash_value \<rparr>))"

definition FunctionStepBase_supports_step_as_input ::
  "('w, 'c) function_step \<Rightarrow> 'k \<Rightarrow> pyval" where
  "FunctionStepBase_supports_step_as_input cls step = s_supported_inputs cls"

text \<open>
  \<open>$_function\<close> is a function stored in the class, and \<open>execute\<close> reads it through the
  instance: \<open>getattr(self, '$_function')\<close> is the method bound to \<open>self\<close>. So
  \<open>function(*inputs, conf=self.config)\<close> calls the wrapped function with the instance
  first, then the inputs. The class of the instance is \<open>cls\<close>.
\<close>

definition FunctionStepBase_execute ::
  "('w, 'c) function_step \<Rightarrow> 'c step_instance \<Rightarrow> pyval list \<Rightarrow> ('w, pyval) effect" where
  "FunctionStepBase_execute cls self inputs =
     fn_call (s_function cls) self inputs (i_config self)"

definition FunctionStepBase_save_result ::
  "('w, 'c) function_step \<Rightarrow> string \<Rightarrow> pyval \<Rightarrow> ('w, unit) effect" where
  "FunctionStepBase_save_result cls path result = s_save_function cls path result"

definition FunctionStepBase_load_result ::
  "('w, 'c) function_step \<Rightarrow> string \<Rightarrow> ('w, pyval) effect" where
  "FunctionStepBase_load_result cls path = s_load_function cls path"

definition FunctionStepBase_is_deterministic :: "('w, 'c) function_step \<Rightarrow> bool" where
  "FunctionStepBase_is_deterministic cls = s_pure cls"

definition FunctionStepBase_get_checkpoint_metadata :: "('w, 'c) function_step \<Rightarrow> pyval" where
  "FunctionStepBase_get_checkpoint_metadata self =
     PDict [(''function_hash'', (case s_hash self of None \<Rightarrow> PNone | Some h \<Rightarrow> PInt h))]"

text \<open>
  \<open>h is not None and h == metadata['function_hash']\<close>: \<open>and\<close> does not evaluate its
  right operand when the left one is false, so the metadata is only read when the
  fingerprint is present; the subscription may raise.
\<close>

definition FunctionStepBase_checkpoint_is_valid ::
  "('w, 'c) function_step \<Rightarrow> pyval \<Rightarrow> py_error + bool" where
  "FunctionStepBase_checkpoint_is_valid self metadata =
     (case s_hash self of
        None \<Rightarrow> Inr False
      | Some h \<Rightarrow>
          (case py_getitem metadata ''function_hash'' of
             Inl e \<Rightarrow> Inl e
           | Inr v \<Rightarrow> Inr (py_int_eq h v)))"

definition FunctionStepBase_get_arguments ::
  "('w, 'c) function_step \<Rightarrow> (string \<times> argument) list" where
  "FunctionStepBase_get_arguments cls = s_arguments cls"

definition FunctionStepBase_get_constraints ::
  "('w, 'c) function_step \<Rightarrow> constraint_expr list" where
  "FunctionStepBase_get_constraints cls = s_constraints cls"

section \<open>\<open>processing/text/flatten.py\<close>\<close>

text \<open>
  \<open>execute(**inputs)\<close>: the keyword inputs are a dictionary from labels to values; the
  value under \<open>documents\<close> is a list of documents, each a list of token lists.
  \<open>inputs['documents']\<close> raises \<open>KeyError\<close> when the label is missing.
  \<open>list(itertools.chain.from_iterable(document))\<close> is the concatenation of the lists of
  the document, in order. The instance \<open>self\<close> is not read.
\<close>

definition Flattened_execute ::
  "'self \<Rightarrow> (string \<rightharpoonup> 'a list list list) \<Rightarrow> py_error + 'a list list" where
  "Flattened_execute self inputs =
     (case inputs ''documents'' of
        None \<Rightarrow> Inl (KeyError ''documents'')
      | Some documents \<Rightarrow> Inr (map concat documents))"

definition Flattened_save_result ::
  "string \<Rightarrow> 'p \<Rightarrow> (('p, 'n) filesystem, unit) effect" where
  "Flattened_save_result path result =
     pickle_dump_file (os_path_join path ''main.pickle'') result"

definition Flattened_load_result :: "string \<Rightarrow> (('p, 'n) filesystem, 'p) effect" where
  "Flattened_load_result path = pickle_load_file (os_path_join path ''main.pickle'')"

definition Flattened_get_input_labels :: "string list" where
  "Flattened_get_input_labels = [''documents'']"

definition Flattened_is_deterministic :: bool where
  "Flattened_is_deterministic = True"

definition Flattened_get_checkpoint_metadata :: "'self \<Rightarrow> pyval" where
  "Flattened_get_checkpoint_metadata self = PDict []"

definition Flattened_checkpoint_is_valid :: "'self \<Rightarrow> pyval \<Rightarrow> py_error + bool" where
  "Flattened_checkpoint_is_valid self metadata = Inr True"

definition Flattened_get_arguments :: "(string \<times> argument) list" where
  "Flattened_get_arguments = []"

definition Flattened_get_constraints :: "constraint_expr list" where
  "Flattened_get_constraints = []"

section \<open>\<open>encoders/text/word2vec.py\<close>\<close>

definition dquote :: string where
  "dquote = [CHR 0x22]"

text \<open>
  \<open>self.config.get_casted(key, str)\<close> belongs to the pipeline core, which these sources
  import: \<open>execute\<close> takes the accessor as the parameter \<open>get_casted\<close>, from a dotted key
  to the string stored there or the error raised. \<open>numpy.vstack\<close> is a parameter too,
  once for the vectors of a document (\<open>vstack_rows\<close>) and once for the matrices of the
  documents (\<open>vstack_blocks\<close>); it may raise, for instance on an empty list. The word
  embedding \<open>vectors\<close> is a mapping from words to vectors; \<open>vectors[word]\<close> raises
  \<open>KeyError\<close> for a word it does not hold. An entry \<open>None\<close> of \<open>document_vectors\<close> is
  Python's \<open>None\<close>, the initial value of \<open>replacement_vector\<close>.

  The inner loop, \<open>for word in document\<close>. The \<open>match\<close> statement has no default case:
  any other policy leaves \<open>document_vectors\<close> as it is. The \<open>KeyError\<close> of the policy
  \<open>error\<close> is raised inside the handler and leaves \<open>execute\<close>.
\<close>

fun encode_document ::
  "(string \<Rightarrow> py_error + string) \<Rightarrow> (string \<rightharpoonup> 'v) \<Rightarrow> 'v option \<Rightarrow>
   'v option list \<Rightarrow> string list \<Rightarrow> py_error + 'v option list" where
  "encode_document get_casted vectors replacement_vector document_vectors [] =
     Inr document_vectors"
| "encode_document get_casted vectors replacement_vector document_vectors (word # document) =
     (case vectors word of
        Some v \<Rightarrow>
          encode_document get_casted vectors replacement_vector
            (document_vectors @ [Some v]) document
      | None \<Rightarrow>
          (case get_casted ''params.unknown-word-policy'' of
             Inl e \<Rightarrow> Inl e
           | Inr policy \<Rightarrow>
               if policy = ''ignore'' then
                 encode_document get_casted vectors replacement_vector document_vectors document
               else if policy = ''error'' then
                 Inl (KeyError (''Word '' @ dquote @ word @ dquote
                        @ '' not found in word embedding''))
               else if policy = ''replace'' then
                 encode_document get_casted vectors replacement_vector
                   (document_vectors @ [replacement_vector]) document
               else
                 encode_document get_casted vectors replacement_vector document_vectors document))"

text \<open>The outer loop, \<open>for document in documents\<close>.\<close>

fun encode_documents ::
  "(string \<Rightarrow> py_error + string) \<Rightarrow> ('v option list \<Rightarrow> py_error + 'm) \<Rightarrow>
   (string \<rightharpoonup> 'v) \<Rightarrow> 'v option \<Rightarrow> 'm list \<Rightarrow> string list list \<Rightarrow> py_error + 'm list" where
  "encode_documents get_casted vstack_rows vectors replacement_vector result [] = Inr result"
| "encode_documents get_casted vstack_rows vectors replacement_vector result
     (document # documents) =
     (case encode_document get_casted vectors replacement_vector [] document of
        Inl e \<Rightarrow> Inl e
      | Inr document_vectors \<Rightarrow>
          (case vstack_rows document_vectors of
             Inl e \<Rightarrow> Inl e
           | Inr m \<Rightarrow>
               encode_documents get_casted vstack_rows vectors replacement_vector
                 (result @ [m]) documents))"

text \<open>
  \<open>execute(*inputs)\<close> with \<open>vectors, documents = inputs\<close>: the two positional inputs are
  taken as a pair.
\<close>

definition Word2VecEncoder_execute ::
  "(string \<Rightarrow> py_error + string) \<Rightarrow> ('v option list \<Rightarrow> py_error + 'm) \<Rightarrow>
   ('m list \<Rightarrow> py_error + 'r) \<Rightarrow> (string \<rightharpoonup> 'v) \<times> string list list \<Rightarrow> py_error + 'r" where
  "Word2VecEncoder_execute get_casted vstack_rows vstack_blocks inputs =
     (case inputs of (vectors, documents) \<Rightarrow>
      (case get_casted ''params.unknown-word-policy'' of
         Inl e \<Rightarrow> Inl e
       | Inr policy \<Rightarrow>
           (case (if policy = ''replace'' then
                    (case get_casted ''params.unknown-word-replacement'' of
                       Inl e \<Rightarrow> Inl e
                     | Inr key \<Rightarrow>
                         (case vectors key of
                            Some v \<Rightarrow> Inr (Some v)
                          | None \<Rightarrow>
                              Inl (ValueError (''Replacement word '' @ dquote @ key @ dquote
                                     @ '' not found in word embedding''))))
                  else Inr None) of
              Inl e \<Rightarrow> Inl e
            | Inr replacement_vector \<Rightarrow>
                (case encode_documents get_casted vstack_rows vectors replacement_vector []
                        documents of
                   Inl e \<Rightarrow> Inl e
                 | Inr result \<Rightarrow> vstack_blocks result))))"

definition Word2VecEncoder_save_result ::
  "string \<Rightarrow> 'n \<Rightarrow> (('p, 'n) filesystem, unit) effect" where
  "Word2VecEncoder_save_result path result = numpy_save path result"

definition Word2VecEncoder_load_result :: "string \<Rightarrow> (('p, 'n) filesystem, 'n) effect" where
  "Word2VecEncoder_load_result path = numpy_load path"

definition Word2VecEncoder_get_arguments :: "(string \<times> argument) list" where
  "Word2VecEncoder_get_arguments =
     [(''unknown-word-policy'',
       EnumArgument ''unknown-word-policy''
         ''Policy on how to handle words not contained in the given word embedding.''
         [''ignore'', ''error'', ''replace'']),
      (''unknown-word-replacement'',
       StringArgument ''unknown-word-replacement''
         (''Replacement for words not contained in the given word embedding. ''
            @ ''Only used if unknown-word-policy == '' @ dquote @ ''replace'' @ dquote)
         (Some (Equal (ArgumentRef ''unknown-word-policy'') (Constant ''replace''))))]"

definition Word2VecEncoder_get_constraints :: "constraint_expr list" where
  "Word2VecEncoder_get_constraints = []"

definition Word2VecEncoder_is_deterministic :: bool where
  "Word2VecEncoder_is_deterministic = True"

definition Word2VecEncoder_get_checkpoint_metadata :: "'self \<Rightarrow> pyval" where
  "Word2VecEncoder_get_checkpoint_metadata self = PDict []"

definition Word2VecEncoder_checkpoint_is_valid :: "'self \<Rightarrow> pyval \<Rightarrow> py_error + bool" where
  "Word2VecEncoder_checkpoint_is_valid self metadata = Inr True"

text \<open>
  Modelled from the spec: the configuration source of the pipeline core is not among
  the sources; it is "a read-only accessor exposing resolved, typed configuration values
  by dotted key, which must fail with a typed error if the key is absent or of the wrong
  declared type". Here for the declared type \<open>str\<close>.
\<close>

definition config_get_casted_str :: "(string \<rightharpoonup> pyval) \<Rightarrow> string \<Rightarrow> py_error + string" where
  "config_get_casted_str config key =
     (case config key of
        Some (PStr s) \<Rightarrow> Inr s
      | _ \<Rightarrow> Inl (ConfigurationError key))"

section \<open>\<open>encoders/text/dict2array.py\<close>\<close>

text \<open>
  The keyword inputs of \<open>execute(**inputs)\<close>: a field is \<open>None\<close> when the label is not
  among the inputs, and reading it raises \<open>KeyError\<close>. The word-to-index dictionary maps
  tokens to column indices; a document is a dictionary from tokens to counts, iterated
  by \<open>items()\<close> in insertion order. Counts and indices are Python integers.
\<close>

record d2s_inputs =
  in_word_to_index_dictionary :: "(string \<rightharpoonup> int) option"
  in_documents :: "(string \<times> int) list list option"

text \<open>
  The argument of \<open>scipy.sparse.csr_array((data, (row_ind, col_ind)))\<close>: the counts, the
  row indices and the column indices.
\<close>

type_synonym coo_arguments = "int list \<times> nat list \<times> int list"

text \<open>
  \<open>scipy.sparse.csr_array((data, (row_ind, col_ind)))\<close>, with no \<open>shape\<close> argument. SciPy
  builds a coordinate matrix first and has to infer its shape from the largest indices:
  before anything else it refuses empty index arrays. What it does with index arrays
  that are not empty (converting the counts, adding up the entries at one position,
  refusing values it cannot store) is the parameter \<open>build\<close>, from the three arrays to
  the sparse array or the error raised.
\<close>

definition csr_array ::
  "(coo_arguments \<Rightarrow> py_error + 'a) \<Rightarrow> coo_arguments \<Rightarrow> py_error + 'a" where
  "csr_array build arg =
     (case arg of (data, row_ind, col_ind) \<Rightarrow>
        if row_ind = [] \<or> col_ind = [] then
          Inl (ValueError ''cannot infer dimensions from zero sized index arrays'')
        else build (data, row_ind, col_ind))"

text \<open>The inner loop, \<open>for token, col in document.items()\<close>, for the document \<open>row\<close>.\<close>

fun add_document ::
  "(string \<rightharpoonup> int) \<Rightarrow> nat \<Rightarrow> coo_arguments \<Rightarrow> (string \<times> int) list \<Rightarrow>
   py_error + coo_arguments" where
  "add_document word_to_index row (data, row_ind, col_ind) [] = Inr (data, row_ind, col_ind)"
| "add_document word_to_index row (data, row_ind, col_ind) ((token, col) # items) =
     (case word_to_index token of
        None \<Rightarrow> Inl (ValueError (''Dictionary has no entry for word: '' @ token))
      | Some index \<Rightarrow>
          add_document word_to_index row (data @ [col], row_ind @ [row], col_ind @ [index]) items)"

text \<open>The outer loop, \<open>for row, document in enumerate(documents)\<close>.\<close>

fun add_documents ::
  "(string \<rightharpoonup> int) \<Rightarrow> nat \<Rightarrow> coo_arguments \<Rightarrow> (string \<times> int) list list \<Rightarrow>
   py_error + coo_arguments" where
  "add_documents word_to_index row acc [] = Inr acc"
| "add_documents word_to_index row acc (document # documents) =
     (case add_document word_to_index row acc document of
        Inl e \<Rightarrow> Inl e
      | Inr acc' \<Rightarrow> add_documents word_to_index (Suc row) acc' documents)"

definition DictToSparseArray_execute ::
  "(coo_arguments \<Rightarrow> py_error + 'a) \<Rightarrow> 'self \<Rightarrow> d2s_inputs \<Rightarrow> py_error + 'a" where
  "DictToSparseArray_execute build self inputs =
     (case in_word_to_index_dictionary inputs of
        None \<Rightarrow> Inl (KeyError ''word-to-index-dictionary'')
      | Some word_to_index \<Rightarrow>
          (case in_documents inputs of
             None \<Rightarrow> Inl (KeyError ''documents'')
           | Some documents \<Rightarrow>
               (case add_documents word_to_index 0 ([], [], []) documents of
                  Inl e \<Rightarrow> Inl e
                | Inr arrays \<Rightarrow> csr_array build arrays)))"

definition DictToSparseArray_save_result ::
  "string \<Rightarrow> 'p \<Rightarrow> (('p, 'n) filesystem, unit) effect" where
  "DictToSparseArray_save_result path result = pickle_dump_file path result"

definition DictToSparseArray_load_result :: "string \<Rightarrow> (('p, 'n) filesystem, 'p) effect" where
  "DictToSparseArray_load_result path = pickle_load_file path"

definition DictToSparseArray_is_deterministic :: bool where
  "DictToSparseArray_is_deterministic = True"

definition DictToSparseArray_get_checkpoint_metadata :: "'self \<Rightarrow> pyval" where
  "DictToSparseArray_get_checkpoint_metadata self = PDict []"

definition DictToSparseArray_checkpoint_is_valid :: "'self \<Rightarrow> pyval \<Rightarrow> py_error + bool" where
  "DictToSparseArray_checkpoint_is_valid self metadata = Inr True"

section \<open>Steps as the pipeline sees them\<close>

text \<open>
  The pipeline calls \<open>is_deterministic\<close>, \<open>get_checkpoint_metadata\<close> and
  \<open>checkpoint_is_valid\<close> on a step without knowing its class; the call goes to the
  method of the class. The steps of these sources are the three classes and every class
  built by \<open>pipeline_step\<close>.
\<close>

datatype ('w, 'c) step =
    FlattenedStep
  | Word2VecEncoderStep
  | DictToSparseArrayStep
  | FunctionStep "('w, 'c) function_step"

fun is_deterministic :: "('w, 'c) step \<Rightarrow> bool" where
  "is_deterministic FlattenedStep = Flattened_is_deterministic"
| "is_deterministic Word2VecEncoderStep = Word2VecEncoder_is_deterministic"
| "is_deterministic DictToSparseArrayStep = DictToSparseArray_is_deterministic"
| "is_deterministic (FunctionStep cls) = FunctionStepBase_is_deterministic cls"

fun get_checkpoint_metadata :: "('w, 'c) step \<Rightarrow> pyval" where
  "get_checkpoint_metadata FlattenedStep = Flattened_get_checkpoint_metadata ()"
| "get_checkpoint_metadata Word2VecEncoderStep = Word2VecEncoder_get_checkpoint_metadata ()"
| "get_checkpoint_metadata DictToSparseArrayStep = DictToSparseArray_get_checkpoint_metadata ()"
| "get_checkpoint_metadata (FunctionStep cls) = FunctionStepBase_get_checkpoint_metadata cls"

fun checkpoint_is_valid :: "('w, 'c) step \<Rightarrow> pyval \<Rightarrow> py_error + bool" where
  "checkpoint_is_valid FlattenedStep metadata = Flattened_checkpoint_is_valid () metadata"
| "checkpoint_is_valid Word2VecEncoderStep metadata =
     Word2VecEncoder_checkpoint_is_valid () metadata"
| "checkpoint_is_valid DictToSparseArrayStep metadata =
     DictToSparseArray_checkpoint_is_valid () metadata"
| "checkpoint_is_valid (FunctionStep cls) metadata =
     FunctionStepBase_checkpoint_is_valid cls metadata"

section \<open>Example functions and steps\<close>

text \<open>
  Concrete inputs for the examples below. A step class, which cannot be subscripted,
  and the class \<open>dict\<close>, which can. Two stand-ins for the built-in \<open>hash\<close>: the
  length of the text, and the same plus a seed, as the string hash of an interpreter
  process is salted with the seed of the process. A wrapped function with its source,
  and the same function without retrievable source (as for a function defined in an
  interactive session). A function that looks for a file and then writes it. Functions
  that only differ in their source text. \<open>wrap\<close> applies the decorator with the pickle
  saver and loader; \<open>wrapped\<close> is the class it builds.
\<close>

definition loader_class :: pyval where
  "loader_class = PClass ''Loader'' (\<lambda>key. Inl TypeError)"

definition dict_class :: pyval where
  "dict_class = PClass ''dict'' (\<lambda>key. Inr (PGenericAlias ''dict'' key))"

definition length_hash :: "string \<Rightarrow> 64 word" where
  "length_hash text = of_nat (length text)"


type_synonym world = "(pyval, int list list) filesystem"

type_synonym config = "string \<rightharpoonup> pyval"

text \<open>
  \<open>2 * x\<close> doubles an integer (a boolean counts as 0 or 1) and repeats a string or a
  list; the other values raise \<open>TypeError\<close>, as a call with another number of inputs does.
\<close>

definition double_function :: "(world, config) pyfunction" where
  "double_function =
     \<lparr> fn_name = ''double'',
       fn_getsource = Inr ''def double(self, x, conf): return 2 * x'',
       fn_call = (\<lambda>self inputs conf w.
          ((case inputs of
              [PInt x] \<Rightarrow> Inr (PInt (2 * x))
            | [PBool b] \<Rightarrow> Inr (PInt (if b then 2 else 0))
            | [PStr x] \<Rightarrow> Inr (PStr (x @ x))
            | [PList x] \<Rightarrow> Inr (PList (x @ x))
            | _ \<Rightarrow> Inl TypeError), w)) \<rparr>"


definition wrap ::
  "bool \<Rightarrow> (world, config) pyfunction \<Rightarrow> py_error + (world, config) function_step" where
  "wrap is_pure func =
     pipeline_step pickle_saver pickle_loader (PList [loader_class]) [] is_pure
       None None length_hash func"

definition wrapped ::
  "bool \<Rightarrow> (world, config) pyfunction \<Rightarrow> int option \<Rightarrow> (world, config) function_step" where
  "wrapped is_pure func h =
     \<lparr> s_name = ''FunctionStepWrapper_'' @ fn_name func,
       s_marker_classes = [],
       s_function = func,
       s_save_function = pickle_saver,
       s_load_function = pickle_loader,
       s_pure = is_pure,
       s_arguments = [],
       s_constraints = [],
       s_supported_inputs = PList [loader_class],
       s_hash = h \<rparr>"

text \<open>
  \<open>once\<close> tells whether the file \<open>FLAG\<close> (the path \<open>flag\<close>) exists, after writing it with
  the pickle saver of the module.
\<close>

definition once_function :: "(world, config) pyfunction" where
  "once_function =
     \<lparr> fn_name = ''once'',
       fn_getsource = Inr
         ''def once(self, conf): seen = os.path.exists(FLAG); pickle_saver(FLAG, None); return seen'',
       fn_call = (\<lambda>self inputs conf fs.
          if inputs \<noteq> [] then (Inl TypeError, fs)
          else (case pickle_saver ''flag'' PNone fs of
                  (Inl e, fs') \<Rightarrow> (Inl e, fs')
                | (Inr u, fs') \<Rightarrow> (Inr (PBool (files fs ''flag'' \<noteq> None)), fs'))) \<rparr>"

definition unsourced_function :: "(world, config) pyfunction" where
  "unsourced_function = double_function\<lparr>fn_getsource := Inl OSError\<rparr>"

definition empty_filesystem :: world where
  "empty_filesystem = \<lparr> files = Map.empty, writable = (\<lambda>path. True) \<rparr>"

definition no_config :: "config step_instance" where
  "no_config = \<lparr> i_config = Map.empty \<rparr>"

text \<open>
  For the word2vec examples: a word embedding with two words, and a stand-in for
  \<open>numpy.vstack\<close> that keeps the list of the stacked arrays and raises on an empty list,
  as NumPy does.
\<close>

definition word_vectors :: "string \<rightharpoonup> int list" where
  "word_vectors = [''cat'' \<mapsto> [1, 0], ''dog'' \<mapsto> [0, 1]]"

definition stack :: "'a list \<Rightarrow> py_error + 'a list" where
  "stack arrays =
     (if arrays = [] then Inl (ValueError ''need at least one array to concatenate'')
      else Inr arrays)"

section \<open>Tokens of the documents of the sparse-array step\<close>

text \<open>
  The first token, in the order of the iteration over the documents and their items,
  that the word-to-index dictionary does not hold; and the row indices the loops collect:
  the number of each document, once per item of the document.
\<close>

definition missing_token :: "(string \<rightharpoonup> int) \<Rightarrow> (string \<times> int) list list \<Rightarrow> string option" where
  "missing_token word_to_index documents =
     find (\<lambda>token. word_to_index token = None) (concat (map (map fst) documents))"

definition document_rows :: "nat \<Rightarrow> (string \<times> int) list list \<Rightarrow> nat list" where
  "document_rows row documents =
     concat (map (\<lambda>(i, document). replicate (length document) i) (enumerate row documents))"

section \<open>Properties\<close>

text \<open>
  C9. The flatten step maps each document to the concatenation of its token lists, in
  order, whatever the instance (and so whatever its configuration): its argument schema
  and its constraints are empty. On the documents \<open>[[["a","b"],["c"]], [["d"]]]\<close> the
  result is \<open>[["a","b","c"], ["d"]]\<close>. The checkpoint metadata is the same empty
  dictionary for any two instances and executions.
\<close>

theorem Flattened_execute_concat:
  "Flattened_execute self [''documents'' \<mapsto> documents] = Inr (map concat documents)
   \<and> Flattened_execute self [''documents'' \<mapsto> documents]
       = Flattened_execute self' [''documents'' \<mapsto> documents]
   \<and> Flattened_get_arguments = [] \<and> Flattened_get_constraints = []
   \<and> Flattened_execute self
        [''documents'' \<mapsto> [[[''a'', ''b''], [''c'']], [[''d'']]]]
       = Inr [[''a'', ''b'', ''c''], [''d'']]
   \<and> Flattened_get_checkpoint_metadata self = Flattened_get_checkpoint_metadata self'
   \<and> Flattened_get_checkpoint_metadata self = PDict []"
  by (simp add: Flattened_execute_def Flattened_get_arguments_def
      Flattened_get_constraints_def Flattened_get_checkpoint_metadata_def)

lemma wrap_double:
  "wrap is_pure double_function = Inr (wrapped is_pure double_function (Some 39))"
  by (simp add: wrap_def wrapped_def pipeline_step_def double_function_def length_hash_def)

lemma wrap_no_source:
  "wrap is_pure unsourced_function
     = Inr (wrapped is_pure unsourced_function None)"
  by (simp add: wrap_def wrapped_def pipeline_step_def double_function_def
      unsourced_function_def)

lemma wrapped_sel:
  "s_hash (wrapped is_pure func h) = h" "s_pure (wrapped is_pure func h) = is_pure"
  "s_function (wrapped is_pure func h) = func"
  "s_supported_inputs (wrapped is_pure func h) = PList [loader_class]"
  by (simp_all add: wrapped_def)


lemma unsourced_getsource: "fn_getsource unsourced_function = Inl OSError"
  by (simp add: unsourced_function_def)

lemma once_twice:
  "fst (FunctionStepBase_execute (wrapped True once_function h) no_config []
          empty_filesystem) = Inr (PBool False)"
  "fst (FunctionStepBase_execute (wrapped True once_function h) no_config []
          (snd (FunctionStepBase_execute (wrapped True once_function h)
                  no_config [] empty_filesystem))) = Inr (PBool True)"
  by (simp_all add: wrapped_sel FunctionStepBase_execute_def once_function_def
      empty_filesystem_def pickle_saver_def pickle_dump_file_def)

subsection \<open>Validity of a checkpoint for an adapter step\<close>

text \<open>
  A step with the fingerprint 39 that is given a dictionary without the field
  \<open>function_hash\<close> raises \<open>KeyError\<close>, and given \<open>None\<close> it raises \<open>TypeError\<close>: it
  does not return false.
\<close>

theorem checkpoint_is_valid_missing_field:
  "wrap True double_function = Inr (wrapped True double_function (Some 39))
   \<and> FunctionStepBase_checkpoint_is_valid (wrapped True double_function (Some 39)) (PDict [])
       = Inl (KeyError ''function_hash'')
   \<and> FunctionStepBase_checkpoint_is_valid (wrapped True double_function (Some 39)) PNone
       = Inl TypeError"
  by (simp add: wrap_double FunctionStepBase_checkpoint_is_valid_def wrapped_def)

text \<open>
  C1, as the code has it. \<open>checkpoint_is_valid(metadata)\<close> returns true if and only if
  the fingerprint of the step is present, \<open>metadata['function_hash']\<close> gives a value, and
  the fingerprint equals it. With no fingerprint it returns false and does not read the
  metadata. With a fingerprint it returns the comparison when the subscription gives a
  value; it raises \<open>KeyError\<close> on a dictionary without the field; it raises \<open>TypeError\<close>
  on \<open>None\<close>, a boolean, an integer, a string, a list and a generic alias; and on a
  class it does what subscripting the class gives: the error, or the comparison with
  the value (false for the generic alias that \<open>dict\<close> gives).
\<close>

theorem checkpoint_is_valid_iff:
  "(FunctionStepBase_checkpoint_is_valid self metadata = Inr True \<longleftrightarrow>
      (\<exists>h v. s_hash self = Some h \<and> py_getitem metadata ''function_hash'' = Inr v
             \<and> py_int_eq h v))
   \<and> (s_hash self = None \<longrightarrow> FunctionStepBase_checkpoint_is_valid self metadata = Inr False)
   \<and> (\<forall>h v. s_hash self = Some h \<and> py_getitem metadata ''function_hash'' = Inr v \<longrightarrow>
         FunctionStepBase_checkpoint_is_valid self metadata = Inr (py_int_eq h v))
   \<and> (\<forall>h kvs. s_hash self = Some h \<and> metadata = PDict kvs
           \<and> map_of kvs ''function_hash'' = None \<longrightarrow>
         FunctionStepBase_checkpoint_is_valid self metadata = Inl (KeyError ''function_hash''))
   \<and> (\<forall>h. s_hash self = Some h
           \<and> (metadata = PNone \<or> (\<exists>b. metadata = PBool b) \<or> (\<exists>i. metadata = PInt i)
               \<or> (\<exists>t. metadata = PStr t) \<or> (\<exists>xs. metadata = PList xs)
               \<or> (\<exists>c k. metadata = PGenericAlias c k)) \<longrightarrow>
         FunctionStepBase_checkpoint_is_valid self metadata = Inl TypeError)
   \<and> (\<forall>h c getitem. s_hash self = Some h \<and> metadata = PClass c getitem \<longrightarrow>
         FunctionStepBase_checkpoint_is_valid self metadata
           = (case getitem ''function_hash'' of
                Inl e \<Rightarrow> Inl e
              | Inr v \<Rightarrow> Inr (py_int_eq h v)))"
proof -
  have 1: "FunctionStepBase_checkpoint_is_valid self metadata = Inr True \<longleftrightarrow>
      (\<exists>h v. s_hash self = Some h \<and> py_getitem metadata ''function_hash'' = Inr v
             \<and> py_int_eq h v)"
    by (auto simp: FunctionStepBase_checkpoint_is_valid_def split: option.splits sum.splits)
  have 2: "s_hash self = None \<longrightarrow>
      FunctionStepBase_checkpoint_is_valid self metadata = Inr False"
    by (simp add: FunctionStepBase_checkpoint_is_valid_def)
  have 3: "\<forall>h v. s_hash self = Some h \<and> py_getitem metadata ''function_hash'' = Inr v \<longrightarrow>
      FunctionStepBase_checkpoint_is_valid self metadata = Inr (py_int_eq h v)"
    by (simp add: FunctionStepBase_checkpoint_is_valid_def)
  have 4: "\<forall>h kvs. s_hash self = Some h \<and> metadata = PDict kvs
        \<and> map_of kvs ''function_hash'' = None \<longrightarrow>
      FunctionStepBase_checkpoint_is_valid self metadata = Inl (KeyError ''function_hash'')"
    by (simp add: FunctionStepBase_checkpoint_is_valid_def)
  have 5: "\<forall>h. s_hash self = Some h
        \<and> (metadata = PNone \<or> (\<exists>b. metadata = PBool b) \<or> (\<exists>i. metadata = PInt i)
            \<or> (\<exists>t. metadata = PStr t) \<or> (\<exists>xs. metadata = PList xs)
            \<or> (\<exists>c k. metadata = PGenericAlias c k)) \<longrightarrow>
      FunctionStepBase_checkpoint_is_valid self metadata = Inl TypeError"
    by (auto simp: FunctionStepBase_checkpoint_is_valid_def)
  have 6: "\<forall>h c getitem. s_hash self = Some h \<and> metadata = PClass c getitem \<longrightarrow>
      FunctionStepBase_checkpoint_is_valid self metadata
        = (case getitem ''function_hash'' of
             Inl e \<Rightarrow> Inl e
           | Inr v \<Rightarrow> Inr (py_int_eq h v))"
    by (simp add: FunctionStepBase_checkpoint_is_valid_def)
  from 1 2 3 4 5 6 show ?thesis by blast
qed

theorem checkpoint_is_valid_iff_witness:
  "FunctionStepBase_checkpoint_is_valid (wrapped True double_function (Some 39))
     (PDict [(''function_hash'', PInt 39)]) = Inr True
   \<and> FunctionStepBase_checkpoint_is_valid (wrapped True double_function (Some 39))
     (PDict [(''function_hash'', PInt 40)]) = Inr False
   \<and> FunctionStepBase_checkpoint_is_valid (wrapped True double_function None)
     (PDict [(''function_hash'', PNone)]) = Inr False
   \<and> FunctionStepBase_checkpoint_is_valid (wrapped True double_function (Some 39))
     (PDict [(''hash'', PInt 39)]) = Inl (KeyError ''function_hash'')
   \<and> FunctionStepBase_checkpoint_is_valid (wrapped True double_function (Some 39))
     (PList [PInt 39]) = Inl TypeError
   \<and> FunctionStepBase_checkpoint_is_valid (wrapped True double_function (Some 39))
     dict_class = Inr False"
proof -
  let ?step = "wrapped True double_function (Some 39)"
  have h: "s_hash ?step = Some 39" by (simp add: wrapped_sel)
  have "FunctionStepBase_checkpoint_is_valid ?step (PDict [(''function_hash'', PInt 39)])
      = Inr True"
    using checkpoint_is_valid_iff [of ?step "PDict [(''function_hash'', PInt 39)]",
        THEN conjunct1] h by simp
  moreover have "FunctionStepBase_checkpoint_is_valid ?step
      (PDict [(''function_hash'', PInt 40)]) = Inr False"
    using checkpoint_is_valid_iff [of ?step "PDict [(''function_hash'', PInt 40)]",
        THEN conjunct2, THEN conjunct2, THEN conjunct1] h by simp
  moreover have "FunctionStepBase_checkpoint_is_valid (wrapped True double_function None)
      (PDict [(''function_hash'', PNone)]) = Inr False"
    using checkpoint_is_valid_iff [of "wrapped True double_function None"
        "PDict [(''function_hash'', PNone)]", THEN conjunct2, THEN conjunct1]
    by (simp add: wrapped_sel)
  moreover have "FunctionStepBase_checkpoint_is_valid ?step (PDict [(''hash'', PInt 39)])
      = Inl (KeyError ''function_hash'')"
    using checkpoint_is_valid_iff [of ?step "PDict [(''hash'', PInt 39)]",
        THEN conjunct2, THEN conjunct2, THEN conjunct2, THEN conjunct1] h by simp
  moreover have "FunctionStepBase_checkpoint_is_valid ?step (PList [PInt 39]) = Inl TypeError"
    using checkpoint_is_valid_iff [of ?step "PList [PInt 39]",
        THEN conjunct2, THEN conjunct2, THEN conjunct2, THEN conjunct2, THEN conjunct1] h
    by simp
  moreover have "FunctionStepBase_checkpoint_is_valid ?step dict_class = Inr False"
    using checkpoint_is_valid_iff [of ?step dict_class,
        THEN conjunct2, THEN conjunct2, THEN conjunct2, THEN conjunct2, THEN conjunct2] h
    by (simp add: dict_class_def)
  ultimately show ?thesis by simp
qed


lemma pipeline_step_no_source:
  "fn_getsource func = Inl e \<Longrightarrow> is_OSError e \<Longrightarrow>
   \<exists>cls. pipeline_step save_func load_func supported marker_classes is_pure arguments
            constraints py_hash func = Inr cls
     \<and> s_hash cls = None \<and> s_pure cls = is_pure
     \<and> s_supported_inputs cls = supported \<and> s_function cls = func"
  by (simp add: pipeline_step_def)

lemma pipeline_step_Inr:
  "pipeline_step save_func load_func supported marker_classes is_pure arguments
     constraints py_hash func = Inr cls \<Longrightarrow>
   s_pure cls = is_pure \<and> s_supported_inputs cls = supported \<and> s_function cls = func
   \<and> s_save_function cls = save_func \<and> s_load_function cls = load_func
   \<and> s_hash cls = (case fn_getsource func of Inr src \<Rightarrow> Some (sint (py_hash src))
                     | Inl e \<Rightarrow> None)"
  by (auto simp: pipeline_step_def split: sum.splits if_splits)

lemma own_metadata_valid:
  "FunctionStepBase_checkpoint_is_valid cls (FunctionStepBase_get_checkpoint_metadata cls)
     = Inr (s_hash cls \<noteq> None)"
  by (simp add: FunctionStepBase_checkpoint_is_valid_def
      FunctionStepBase_get_checkpoint_metadata_def split: option.splits)

text \<open>
  A step built with \<open>is_pure=False\<close> from a function with source: it reports that it is
  not deterministic, and still accepts the metadata of its own run.
\<close>

theorem impure_step_accepts_own_metadata:
  "wrap False double_function = Inr (wrapped False double_function (Some 39))
   \<and> \<not> is_deterministic (FunctionStep (wrapped False double_function (Some 39)))
   \<and> checkpoint_is_valid (FunctionStep (wrapped False double_function (Some 39)))
        (get_checkpoint_metadata (FunctionStep (wrapped False double_function (Some 39))))
       = Inr True"
  by (simp add: wrap_double own_metadata_valid wrapped_sel FunctionStepBase_is_deterministic_def)

text \<open>
  C2, as the code has it. A step whose \<open>is_deterministic()\<close> is false is an adapter
  step built with \<open>is_pure=False\<close> (the three classes always return true). Its
  \<open>checkpoint_is_valid\<close> does not read the purity flag: it answers as the same step
  built with \<open>is_pure=True\<close> does. So it returns false for every metadata when the
  fingerprint is absent, and true for its own metadata when the fingerprint is present.
\<close>

theorem nondeterministic_step_validity:
  assumes "\<not> is_deterministic S"
  shows "\<exists>cls. S = FunctionStep cls \<and> \<not> s_pure cls
     \<and> (\<forall>metadata. checkpoint_is_valid S metadata
           = FunctionStepBase_checkpoint_is_valid (cls\<lparr>s_pure := True\<rparr>) metadata)
     \<and> (s_hash cls = None \<longrightarrow> (\<forall>metadata. checkpoint_is_valid S metadata = Inr False))
     \<and> (s_hash cls \<noteq> None \<longrightarrow>
           checkpoint_is_valid S (get_checkpoint_metadata S) = Inr True)"
proof (cases S)
  case (FunctionStep cls)
  with assms have "\<not> s_pure cls"
    by (simp add: FunctionStepBase_is_deterministic_def)
  moreover have "checkpoint_is_valid S metadata
      = FunctionStepBase_checkpoint_is_valid (cls\<lparr>s_pure := True\<rparr>) metadata" for metadata
    using FunctionStep by (simp add: FunctionStepBase_checkpoint_is_valid_def)
  moreover have "s_hash cls = None \<longrightarrow> checkpoint_is_valid S metadata = Inr False"
    for metadata
    using FunctionStep by (simp add: FunctionStepBase_checkpoint_is_valid_def)
  moreover have "s_hash cls \<noteq> None \<longrightarrow>
      checkpoint_is_valid S (get_checkpoint_metadata S) = Inr True"
    using FunctionStep by (simp add: own_metadata_valid)
  ultimately show ?thesis
    using FunctionStep by blast
qed (use assms in \<open>simp_all add: Flattened_is_deterministic_def
      Word2VecEncoder_is_deterministic_def DictToSparseArray_is_deterministic_def\<close>)

theorem nondeterministic_step_validity_witness:
  "checkpoint_is_valid (FunctionStep (wrapped False double_function (Some 39)))
     (PDict [(''function_hash'', PInt 39)]) = Inr True
   \<and> checkpoint_is_valid (FunctionStep (wrapped False double_function None))
     (PDict [(''function_hash'', PInt 39)]) = Inr False"
  using nondeterministic_step_validity [of "FunctionStep (wrapped False double_function (Some 39))"]
    nondeterministic_step_validity [of "FunctionStep (wrapped False double_function None)"]
  by (auto simp: wrapped_sel FunctionStepBase_is_deterministic_def
      FunctionStepBase_checkpoint_is_valid_def)

text \<open>
  C3. When \<open>inspect.getsource\<close> raises \<open>OSError\<close> on the wrapped function, the
  decorator builds a step without fingerprint, whatever the purity flag; its
  \<open>checkpoint_is_valid\<close> returns false for every metadata, also for the metadata it
  returns itself, and never raises.
\<close>

theorem no_source_never_valid:
  assumes "fn_getsource func = Inl e" and "is_OSError e"
  shows "\<exists>cls. pipeline_step save_func load_func supported marker_classes is_pure arguments
            constraints py_hash func = Inr cls
     \<and> s_hash cls = None
     \<and> FunctionStepBase_is_deterministic cls = is_pure
     \<and> (\<forall>metadata. FunctionStepBase_checkpoint_is_valid cls metadata = Inr False)
     \<and> FunctionStepBase_checkpoint_is_valid cls (FunctionStepBase_get_checkpoint_metadata cls)
         = Inr False"
proof -
  from pipeline_step_no_source [OF assms]
  obtain cls where cls:
    "pipeline_step save_func load_func supported marker_classes is_pure arguments
       constraints py_hash func = Inr cls" "s_hash cls = None" "s_pure cls = is_pure"
    by blast
  then show ?thesis
    by (simp add: FunctionStepBase_checkpoint_is_valid_def FunctionStepBase_is_deterministic_def)
qed

theorem no_source_never_valid_witness:
  "wrap True unsourced_function
     = Inr (wrapped True unsourced_function None)
   \<and> FunctionStepBase_checkpoint_is_valid
       (wrapped True unsourced_function None)
       (FunctionStepBase_get_checkpoint_metadata
          (wrapped True unsourced_function None)) = Inr False
   \<and> FunctionStepBase_checkpoint_is_valid
       (wrapped True unsourced_function None) (PDict []) = Inr False"
  using no_source_never_valid [OF unsourced_getsource, of pickle_saver pickle_loader
      "PList [loader_class]" "[]" True None None length_hash]
  by (auto simp: wrap_no_source [unfolded wrap_def] wrap_no_source)

subsection \<open>Input compatibility of an adapter step\<close>

text \<open>
  C10. \<open>supports_step_as_input(step)\<close> of a class built by the decorator returns the
  value given as \<open>supported_input_steps\<close>, whatever the candidate: the answer is the
  same for any two candidates, and a truthy value accepts every candidate.
\<close>

theorem supports_step_as_input_constant:
  assumes "pipeline_step save_func load_func supported_input_steps marker_classes is_pure
     arguments constraints py_hash func = Inr cls"
  shows "FunctionStepBase_supports_step_as_input cls step = supported_input_steps
    \<and> FunctionStepBase_supports_step_as_input cls step
        = FunctionStepBase_supports_step_as_input cls step'
    \<and> (py_truthy supported_input_steps \<longrightarrow>
         py_truthy (FunctionStepBase_supports_step_as_input cls step))"
  using pipeline_step_Inr [OF assms]
  by (simp add: FunctionStepBase_supports_step_as_input_def)

theorem supports_step_as_input_constant_witness:
  "FunctionStepBase_supports_step_as_input (wrapped True double_function (Some 39))
      ''Word2VecLoader'' = PList [loader_class]
   \<and> FunctionStepBase_supports_step_as_input (wrapped True double_function (Some 39))
      ''Flattened'' = PList [loader_class]
   \<and> py_truthy (FunctionStepBase_supports_step_as_input
        (wrapped True double_function (Some 39)) ''Flattened'')"
proof -
  note w = wrap_double [of True, unfolded wrap_def]
  from supports_step_as_input_constant [OF w, where step = "''Word2VecLoader''"
      and step' = "''Flattened''"]
  show ?thesis
    by (simp add: FunctionStepBase_supports_step_as_input_def wrapped_sel)
qed

subsection \<open>Saving and loading a result\<close>

text \<open>
  The pickle pairs read the file they wrote: the adapter's saver and loader, the flatten
  step (in \<open>main.pickle\<close> under the location) and the sparse-array step. The word2vec
  pair does when the location ends with \<open>.npy\<close>.
\<close>

lemma pickle_file_roundtrip:
  "writable fs path \<Longrightarrow>
   save_then_load pickle_dump_file pickle_load_file path result fs
     = (Inr result, fs\<lparr>files := (files fs)(path \<mapsto> Pickled result)\<rparr>)"
  by (simp add: save_then_load_def pickle_dump_file_def pickle_load_file_def)

lemma pickle_saver_loader_roundtrip:
  "writable fs path \<Longrightarrow>
   fst (save_then_load pickle_saver pickle_loader path result fs) = Inr result"
  by (simp add: save_then_load_def pickle_saver_def pickle_loader_def
      pickle_dump_file_def pickle_load_file_def)

lemma FunctionStepBase_roundtrip:
  assumes "pipeline_step pickle_saver pickle_loader supported marker_classes is_pure
     arguments constraints py_hash func = Inr cls"
    and "writable fs path"
  shows "fst (save_then_load (FunctionStepBase_save_result cls)
            (FunctionStepBase_load_result cls) path result fs) = Inr result"
  using pipeline_step_Inr [OF assms(1)] assms(2)
  by (simp add: save_then_load_def FunctionStepBase_save_result_def
      FunctionStepBase_load_result_def pickle_saver_def pickle_loader_def
      pickle_dump_file_def pickle_load_file_def)

lemma Flattened_roundtrip:
  "writable fs (os_path_join path ''main.pickle'') \<Longrightarrow>
   fst (save_then_load Flattened_save_result Flattened_load_result path result fs) = Inr result"
  by (simp add: save_then_load_def Flattened_save_result_def Flattened_load_result_def
      pickle_dump_file_def pickle_load_file_def)

lemma DictToSparseArray_roundtrip:
  "writable fs path \<Longrightarrow>
   fst (save_then_load DictToSparseArray_save_result DictToSparseArray_load_result path
          result fs) = Inr result"
  by (simp add: save_then_load_def DictToSparseArray_save_result_def
      DictToSparseArray_load_result_def pickle_dump_file_def pickle_load_file_def)

lemma Word2VecEncoder_roundtrip_npy:
  "endswith path ''.npy'' \<Longrightarrow> writable fs path \<Longrightarrow>
   fst (save_then_load Word2VecEncoder_save_result Word2VecEncoder_load_result path
          result fs) = Inr result"
  by (simp add: save_then_load_def Word2VecEncoder_save_result_def
      Word2VecEncoder_load_result_def numpy_save_def numpy_load_def)

text \<open>
  C5 fails for the word2vec step. For a location that does not end with \<open>.npy\<close>,
  \<open>save_result\<close> writes the file of the location with \<open>.npy\<close> appended, and
  \<open>load_result\<close> opens the location itself: with no file there, it raises
  \<open>FileNotFoundError\<close> instead of returning the result.
\<close>

theorem Word2VecEncoder_load_after_save_fails:
  assumes "\<not> endswith path ''.npy''"
    and "writable fs (path @ ''.npy'')"
    and "files fs path = None"
  shows "save_then_load Word2VecEncoder_save_result Word2VecEncoder_load_result path result fs
    = (Inl FileNotFoundError, fs\<lparr>files := (files fs)(path @ ''.npy'' \<mapsto> Npy result)\<rparr>)"
  using assms
  by (simp add: save_then_load_def Word2VecEncoder_save_result_def
      Word2VecEncoder_load_result_def numpy_save_def numpy_load_def)

theorem Word2VecEncoder_load_after_save_fails_witness:
  "fst (save_then_load Word2VecEncoder_save_result Word2VecEncoder_load_result
          ''checkpoints/encoder'' [[1, 0], [0, 1]] empty_filesystem) = Inl FileNotFoundError
   \<and> files (snd (save_then_load Word2VecEncoder_save_result Word2VecEncoder_load_result
          ''checkpoints/encoder'' [[1, 0], [0, 1]] empty_filesystem))
        ''checkpoints/encoder.npy'' = Some (Npy [[1, 0], [0, 1]])"
proof -
  have 1: "\<not> endswith ''checkpoints/encoder'' ''.npy''"
    by (simp add: endswith_def)
  have 2: "writable empty_filesystem (''checkpoints/encoder'' @ ''.npy'')"
    by (simp add: empty_filesystem_def)
  have 3: "files empty_filesystem ''checkpoints/encoder'' = None"
    by (simp add: empty_filesystem_def)
  show ?thesis
    unfolding Word2VecEncoder_load_after_save_fails [OF 1 2 3] by simp
qed

subsection \<open>Tokens missing from the dictionary of the sparse-array step\<close>

lemma find_Some_holds: "find P xs = Some x \<Longrightarrow> P x"
  by (induction xs) (auto split: if_splits)

lemma find_append:
  "find P (xs @ ys) = (case find P xs of None \<Rightarrow> find P ys | Some x \<Rightarrow> Some x)"
  by (induction xs) simp_all

lemma add_document_result:
  "add_document word_to_index row (data, row_ind, col_ind) items =
     (case find (\<lambda>token. word_to_index token = None) (map fst items) of
        Some token \<Rightarrow> Inl (ValueError (''Dictionary has no entry for word: '' @ token))
      | None \<Rightarrow> Inr (data @ map snd items, row_ind @ replicate (length items) row,
                     col_ind @ map (\<lambda>item. the (word_to_index (fst item))) items))"
proof (induction items arbitrary: data row_ind col_ind)
  case Nil
  show ?case by simp
next
  case (Cons item items)
  obtain token col where item: "item = (token, col)" by (cases item)
  show ?case
  proof (cases "word_to_index token")
    case None
    with item show ?thesis by simp
  next
    case (Some index)
    with item Cons show ?thesis
      by (simp add: replicate_app_Cons_same split: option.splits)
  qed
qed

lemma add_documents_result:
  "add_documents word_to_index row (data, row_ind, col_ind) documents =
     (case find (\<lambda>token. word_to_index token = None) (concat (map (map fst) documents)) of
        Some token \<Rightarrow> Inl (ValueError (''Dictionary has no entry for word: '' @ token))
      | None \<Rightarrow> Inr (data @ concat (map (map snd) documents),
                     row_ind @ document_rows row documents,
                     col_ind @ map (\<lambda>item. the (word_to_index (fst item))) (concat documents)))"
proof (induction documents arbitrary: row data row_ind col_ind)
  case Nil
  show ?case by (simp add: document_rows_def)
next
  case (Cons document documents)
  show ?case
  proof (cases "find (\<lambda>token. word_to_index token = None) (map fst document)")
    case (Some token)
    then show ?thesis
      by (simp add: add_document_result find_append)
  next
    case None
    then show ?thesis
      by (simp add: add_document_result find_append Cons document_rows_def
          split: option.splits)
  qed
qed

lemma length_document_rows:
  "length (document_rows row documents) = length (concat documents)"
  by (induction documents arbitrary: row) (simp_all add: document_rows_def)

lemma missing_token_None_iff:
  "missing_token word_to_index documents = None \<longleftrightarrow>
     (\<forall>document \<in> set documents. \<forall>item \<in> set document. fst item \<in> dom word_to_index)"
  by (auto simp: missing_token_def find_None_iff)

lemma DictToSparseArray_execute_result:
  assumes "in_word_to_index_dictionary inputs = Some word_to_index"
    and "in_documents inputs = Some documents"
  shows "DictToSparseArray_execute build self inputs =
      (case missing_token word_to_index documents of
         Some token \<Rightarrow> Inl (ValueError (''Dictionary has no entry for word: '' @ token))
       | None \<Rightarrow>
           csr_array build
             (concat (map (map snd) documents), document_rows 0 documents,
              map (\<lambda>item. the (word_to_index (fst item))) (concat documents)))"
  using assms
  by (simp add: DictToSparseArray_execute_def add_documents_result missing_token_def
      split: option.splits)

lemma known_columns:
  assumes "\<forall>item \<in> set items. fst item \<in> dom word_to_index"
  shows "map (\<lambda>item. word_to_index (fst item)) items
    = map Some (map (\<lambda>item. the (word_to_index (fst item))) items)"
  using assms by (induction items) auto

text \<open>
  With no document, or with one empty document, every token is in the dictionary, and
  \<open>execute\<close> fails: the index arrays are empty, and SciPy cannot infer the shape,
  whatever it does with arrays that are not empty.
\<close>

theorem DictToSparseArray_execute_no_tokens:
  "DictToSparseArray_execute Inr ()
      \<lparr> in_word_to_index_dictionary = Some [''a'' \<mapsto> 0, ''b'' \<mapsto> 1],
        in_documents = Some [] \<rparr>
     = (Inl (ValueError ''cannot infer dimensions from zero sized index arrays'')
         :: py_error + coo_arguments)
   \<and> DictToSparseArray_execute Inr ()
      \<lparr> in_word_to_index_dictionary = Some [''a'' \<mapsto> 0, ''b'' \<mapsto> 1],
        in_documents = Some [[]] \<rparr>
     = (Inl (ValueError ''cannot infer dimensions from zero sized index arrays'')
         :: py_error + coo_arguments)"
  by (simp add: DictToSparseArray_execute_def csr_array_def)

text \<open>
  C7, as the code has it. If a document has a token that the dictionary does not hold,
  \<open>execute\<close> raises \<open>ValueError\<close> with the message
  \<open>Dictionary has no entry for word:\<close> followed by the first such token, and returns
  nothing. If every token of every document is in the dictionary, \<open>execute\<close> raises no
  error of its own: when the documents have no item it raises the error of SciPy on
  empty index arrays, and when they have an item it returns what SciPy makes of the
  counts, the row numbers and the column indices of all items, in the order of the
  iteration.
\<close>

theorem DictToSparseArray_execute_tokens:
  assumes "in_word_to_index_dictionary inputs = Some word_to_index"
    and "in_documents inputs = Some documents"
  shows "(\<forall>token. missing_token word_to_index documents = Some token \<longrightarrow>
            token \<notin> dom word_to_index
            \<and> DictToSparseArray_execute build self inputs
                = Inl (ValueError (''Dictionary has no entry for word: '' @ token)))
     \<and> ((\<exists>document \<in> set documents. \<exists>item \<in> set document. fst item \<notin> dom word_to_index) \<longrightarrow>
            missing_token word_to_index documents \<noteq> None)
     \<and> ((\<forall>document \<in> set documents. \<forall>item \<in> set document. fst item \<in> dom word_to_index)
          \<and> concat documents = [] \<longrightarrow>
            DictToSparseArray_execute build self inputs
              = Inl (ValueError ''cannot infer dimensions from zero sized index arrays''))
     \<and> ((\<forall>document \<in> set documents. \<forall>item \<in> set document. fst item \<in> dom word_to_index)
          \<and> concat documents \<noteq> [] \<longrightarrow>
            (\<exists>col_ind.
               map (\<lambda>item. word_to_index (fst item)) (concat documents) = map Some col_ind
               \<and> DictToSparseArray_execute build self inputs
                   = build (concat (map (map snd) documents), document_rows 0 documents,
                       col_ind)))"
proof -
  let ?known = "\<forall>document \<in> set documents. \<forall>item \<in> set document. fst item \<in> dom word_to_index"
  let ?col_ind = "map (\<lambda>item. the (word_to_index (fst item))) (concat documents)"
  note run = DictToSparseArray_execute_result [OF assms, of build self]
  have first: "\<forall>token. missing_token word_to_index documents = Some token \<longrightarrow>
      token \<notin> dom word_to_index
      \<and> DictToSparseArray_execute build self inputs
          = Inl (ValueError (''Dictionary has no entry for word: '' @ token))"
  proof (intro allI impI)
    fix token
    assume m: "missing_token word_to_index documents = Some token"
    then have "word_to_index token = None"
      unfolding missing_token_def by (rule find_Some_holds)
    with m show "token \<notin> dom word_to_index
        \<and> DictToSparseArray_execute build self inputs
            = Inl (ValueError (''Dictionary has no entry for word: '' @ token))"
      by (simp add: run domIff)
  qed
  have second: "(\<exists>document \<in> set documents. \<exists>item \<in> set document. fst item \<notin> dom word_to_index)
      \<longrightarrow> missing_token word_to_index documents \<noteq> None"
    using missing_token_None_iff [of word_to_index documents] by blast
  have known: "?known \<longrightarrow> DictToSparseArray_execute build self inputs
      = csr_array build (concat (map (map snd) documents), document_rows 0 documents, ?col_ind)"
    by (simp add: run missing_token_None_iff [symmetric])
  have third: "?known \<and> concat documents = [] \<longrightarrow>
      DictToSparseArray_execute build self inputs
        = Inl (ValueError ''cannot infer dimensions from zero sized index arrays'')"
  proof
    assume a: "?known \<and> concat documents = []"
    then have "?col_ind = []" by simp
    with a known show "DictToSparseArray_execute build self inputs
        = Inl (ValueError ''cannot infer dimensions from zero sized index arrays'')"
      by (simp add: csr_array_def)
  qed
  have fourth: "?known \<and> concat documents \<noteq> [] \<longrightarrow>
      (\<exists>col_ind.
         map (\<lambda>item. word_to_index (fst item)) (concat documents) = map Some col_ind
         \<and> DictToSparseArray_execute build self inputs
             = build (concat (map (map snd) documents), document_rows 0 documents, col_ind))"
  proof
    assume a: "?known \<and> concat documents \<noteq> []"
    then have "\<forall>item \<in> set (concat documents). fst item \<in> dom word_to_index"
      by auto
    then have cols: "map (\<lambda>item. word_to_index (fst item)) (concat documents)
        = map Some ?col_ind"
      by (rule known_columns)
    from a have "document_rows 0 documents \<noteq> []"
      using length_document_rows [of 0 documents] by auto
    moreover from a have "?col_ind \<noteq> []" by simp
    ultimately have "DictToSparseArray_execute build self inputs
        = build (concat (map (map snd) documents), document_rows 0 documents, ?col_ind)"
      using a known by (auto simp: csr_array_def)
    with cols show "\<exists>col_ind.
        map (\<lambda>item. word_to_index (fst item)) (concat documents) = map Some col_ind
        \<and> DictToSparseArray_execute build self inputs
            = build (concat (map (map snd) documents), document_rows 0 documents, col_ind)"
      by blast
  qed
  from first second third fourth show ?thesis by blast
qed

text \<open>
  The mapping \<open>{"a": 0, "b": 1}\<close>. A document with the tokens \<open>b\<close>, \<open>c\<close>, \<open>d\<close>: the
  error names \<open>c\<close>. Documents with known tokens only: the constructor receives the
  counts 2, 1, 5 with the rows 0, 1, 1 and the columns 0, 1, 0.
\<close>

theorem DictToSparseArray_execute_tokens_witness:
  "DictToSparseArray_execute Inr ()
      \<lparr> in_word_to_index_dictionary = Some [''a'' \<mapsto> 0, ''b'' \<mapsto> 1],
        in_documents = Some [[(''a'', 2)], [(''b'', 1), (''c'', 5), (''d'', 1)]] \<rparr>
     = (Inl (ValueError ''Dictionary has no entry for word: c'') :: py_error + coo_arguments)
   \<and> DictToSparseArray_execute Inr ()
      \<lparr> in_word_to_index_dictionary = Some [''a'' \<mapsto> 0, ''b'' \<mapsto> 1],
        in_documents = Some [[(''a'', 2)], [(''b'', 1), (''a'', 5)]] \<rparr>
     = (Inr ([2, 1, 5], [0, 1, 1], [0, 1, 0]) :: py_error + coo_arguments)"
proof -
  let ?w = "[''a'' \<mapsto> 0 :: int, ''b'' \<mapsto> 1]"
  let ?bad = "\<lparr> in_word_to_index_dictionary = Some ?w,
      in_documents = Some [[(''a'', 2)], [(''b'', 1), (''c'', 5), (''d'', 1)]] \<rparr>"
  let ?good = "\<lparr> in_word_to_index_dictionary = Some ?w,
      in_documents = Some [[(''a'', 2)], [(''b'', 1), (''a'', 5)]] \<rparr>"
  let ?build = "Inr :: coo_arguments \<Rightarrow> py_error + coo_arguments"
  have m: "missing_token ?w [[(''a'', 2)], [(''b'', 1), (''c'', 5), (''d'', 1)]] = Some ''c''"
    by (simp add: missing_token_def)
  have "DictToSparseArray_execute ?build () ?bad
      = Inl (ValueError ''Dictionary has no entry for word: c'')"
    using DictToSparseArray_execute_tokens [of ?bad ?w
        "[[(''a'', 2)], [(''b'', 1), (''c'', 5), (''d'', 1)]]" ?build "()", THEN conjunct1] m
    by simp
  moreover have "DictToSparseArray_execute ?build () ?good
      = Inr ([2, 1, 5], [0, 1, 1], [0, 1, 0])"
    using DictToSparseArray_execute_tokens [of ?good ?w "[[(''a'', 2)], [(''b'', 1), (''a'', 5)]]"
        ?build "()", THEN conjunct2, THEN conjunct2, THEN conjunct2]
    by (auto simp: document_rows_def enumerate_eq_zip upt_rec)
  ultimately show ?thesis by simp
qed

subsection \<open>The configuration keys read by the word2vec step\<close>

text \<open>The loops read the configuration through the policy key only.\<close>

lemma encode_document_policy_only:
  "encode_document get_casted vectors replacement_vector document_vectors document
    = encode_document (\<lambda>key. get_casted ''params.unknown-word-policy'') vectors
        replacement_vector document_vectors document"
  by (induction document arbitrary: document_vectors)
    (auto split: option.splits sum.splits)

lemma encode_documents_policy_only:
  "encode_documents get_casted vstack_rows vectors replacement_vector result documents
    = encode_documents (\<lambda>key. get_casted ''params.unknown-word-policy'') vstack_rows vectors
        replacement_vector result documents"
  by (induction documents arbitrary: result)
    (simp_all add: encode_document_policy_only [of get_casted] split: sum.splits)

text \<open>
  C8. When the value of \<open>params.unknown-word-policy\<close> is not \<open>replace\<close> (also when
  reading it fails), \<open>execute\<close> does not read \<open>params.unknown-word-replacement\<close>: two
  configurations that agree on every other key give the same result, whatever the second
  key holds and whether it is present at all. So omitting the key cannot make \<open>execute\<close>
  fail.
\<close>

theorem replacement_key_not_consulted:
  assumes "get_casted ''params.unknown-word-policy'' \<noteq> Inr ''replace''"
    and "\<forall>key. key \<noteq> ''params.unknown-word-replacement'' \<longrightarrow> get_casted' key = get_casted key"
  shows "Word2VecEncoder_execute get_casted' vstack_rows vstack_blocks inputs
    = Word2VecEncoder_execute get_casted vstack_rows vstack_blocks inputs"
proof -
  from assms(2)
  have policy: "get_casted' ''params.unknown-word-policy'' = get_casted ''params.unknown-word-policy''"
    by simp
  obtain vectors documents where inputs: "inputs = (vectors, documents)"
    by (cases inputs)
  have loops: "encode_documents get_casted' vstack_rows vectors replacement_vector [] documents
      = encode_documents get_casted vstack_rows vectors replacement_vector [] documents"
    for replacement_vector
  proof -
    have "encode_documents get_casted' vstack_rows vectors replacement_vector [] documents
        = encode_documents (\<lambda>key. get_casted' ''params.unknown-word-policy'') vstack_rows
            vectors replacement_vector [] documents"
      by (rule encode_documents_policy_only)
    also have "\<dots> = encode_documents (\<lambda>key. get_casted ''params.unknown-word-policy'')
        vstack_rows vectors replacement_vector [] documents"
      by (simp only: policy)
    also have "\<dots> = encode_documents get_casted vstack_rows vectors replacement_vector []
        documents"
      by (rule encode_documents_policy_only [symmetric])
    finally show ?thesis .
  qed
  show ?thesis
  proof (cases "get_casted ''params.unknown-word-policy''")
    case (Inl e)
    with policy inputs show ?thesis
      by (simp add: Word2VecEncoder_execute_def)
  next
    case (Inr p)
    with assms(1) have "p \<noteq> ''replace''" by simp
    with Inr policy inputs show ?thesis
      by (simp add: Word2VecEncoder_execute_def loops)
  qed
qed

text \<open>
  With the policy \<open>ignore\<close> and no replacement key in the configuration, the unknown
  word is skipped and \<open>execute\<close> returns the vectors of the known words.
\<close>

theorem replacement_key_not_consulted_witness:
  "Word2VecEncoder_execute
      (config_get_casted_str [''params.unknown-word-policy'' \<mapsto> PStr ''ignore''])
      stack stack (word_vectors, [[''cat'', ''bird''], [''dog'']])
    = Inr [[Some [1, 0]], [Some [0, 1]]]
   \<and> config_get_casted_str [''params.unknown-word-policy'' \<mapsto> PStr ''ignore'']
        ''params.unknown-word-replacement''
      = Inl (ConfigurationError ''params.unknown-word-replacement'')"
proof -
  let ?with = "config_get_casted_str [''params.unknown-word-policy'' \<mapsto> PStr ''ignore'',
      ''params.unknown-word-replacement'' \<mapsto> PStr ''cat'']"
  let ?without = "config_get_casted_str [''params.unknown-word-policy'' \<mapsto> PStr ''ignore'']"
  have 1: "?with ''params.unknown-word-policy'' \<noteq> Inr ''replace''"
    by (simp add: config_get_casted_str_def)
  have 2: "\<forall>key. key \<noteq> ''params.unknown-word-replacement'' \<longrightarrow> ?without key = ?with key"
    by (simp add: config_get_casted_str_def)
  have eq: "Word2VecEncoder_execute ?without stack stack
        (word_vectors, [[''cat'', ''bird''], [''dog'']])
      = Word2VecEncoder_execute ?with stack stack
        (word_vectors, [[''cat'', ''bird''], [''dog'']])"
    by (rule replacement_key_not_consulted [OF 1 2])
  have val: "Word2VecEncoder_execute ?with stack stack
        (word_vectors, [[''cat'', ''bird''], [''dog'']])
      = Inr [[Some [1, 0]], [Some [0, 1]]]"
    by (simp add: Word2VecEncoder_execute_def config_get_casted_str_def word_vectors_def
        stack_def)
  have cfg: "?without ''params.unknown-word-replacement''
      = Inl (ConfigurationError ''params.unknown-word-replacement'')"
    by (simp add: config_get_casted_str_def)
  show ?thesis
    unfolding eq val cfg by simp
qed

subsection \<open>Deterministic steps\<close>

lemma wrap_once:
  "wrap is_pure once_function = Inr (wrapped is_pure once_function (Some 88))"
  by (simp add: wrap_def wrapped_def pipeline_step_def once_function_def length_hash_def)

lemma Word2VecEncoder_execute_keys:
  assumes policy: "get_casted' ''params.unknown-word-policy''
      = get_casted ''params.unknown-word-policy''"
    and replacement: "get_casted' ''params.unknown-word-replacement''
      = get_casted ''params.unknown-word-replacement''"
  shows "Word2VecEncoder_execute get_casted' vstack_rows vstack_blocks inputs
    = Word2VecEncoder_execute get_casted vstack_rows vstack_blocks inputs"
proof -
  obtain vectors documents where inputs: "inputs = (vectors, documents)"
    by (cases inputs)
  have loops: "encode_documents get_casted' vstack_rows vectors replacement_vector [] documents
      = encode_documents get_casted vstack_rows vectors replacement_vector [] documents"
    for replacement_vector
  proof -
    have "encode_documents get_casted' vstack_rows vectors replacement_vector [] documents
        = encode_documents (\<lambda>key. get_casted' ''params.unknown-word-policy'') vstack_rows
            vectors replacement_vector [] documents"
      by (rule encode_documents_policy_only)
    also have "\<dots> = encode_documents (\<lambda>key. get_casted ''params.unknown-word-policy'')
        vstack_rows vectors replacement_vector [] documents"
      by (simp only: policy)
    also have "\<dots> = encode_documents get_casted vstack_rows vectors replacement_vector []
        documents"
      by (rule encode_documents_policy_only [symmetric])
    finally show ?thesis .
  qed
  show ?thesis
    unfolding Word2VecEncoder_execute_def inputs prod.case policy replacement loops ..
qed

text \<open>
  Two steps built with \<open>is_pure=True\<close>. The first wraps a function without
  retrievable source: it is deterministic by its flag and rejects its own metadata. The
  second wraps \<open>once\<close>: two executions in a row, with no input and the same
  configuration, return \<open>False\<close> and then \<open>True\<close>.
\<close>

theorem deterministic_step_rejects_own_metadata:
  "wrap True unsourced_function = Inr (wrapped True unsourced_function None)
   \<and> is_deterministic (FunctionStep (wrapped True unsourced_function None))
   \<and> checkpoint_is_valid (FunctionStep (wrapped True unsourced_function None))
        (get_checkpoint_metadata (FunctionStep (wrapped True unsourced_function None)))
       = Inr False
   \<and> wrap True once_function = Inr (wrapped True once_function (Some 88))
   \<and> is_deterministic (FunctionStep (wrapped True once_function (Some 88)))
   \<and> fst (FunctionStepBase_execute (wrapped True once_function (Some 88)) no_config []
            empty_filesystem) = Inr (PBool False)
   \<and> fst (FunctionStepBase_execute (wrapped True once_function (Some 88)) no_config []
            (snd (FunctionStepBase_execute (wrapped True once_function (Some 88))
                    no_config [] empty_filesystem))) = Inr (PBool True)"
  by (simp add: wrap_no_source wrap_once own_metadata_valid wrapped_sel
      FunctionStepBase_is_deterministic_def once_twice)

text \<open>
  C4, as the code has it. For a step whose \<open>is_deterministic()\<close> is true,
  \<open>checkpoint_is_valid(get_checkpoint_metadata())\<close> returns true, unless the step is an
  adapter step without fingerprint, for which it returns false. An adapter step is
  deterministic by the purity flag it was built with, and its \<open>execute\<close> calls the
  wrapped function with the instance, the inputs and the configuration of the instance:
  when that call returns one outcome in every state of the world, an execution and the
  execution after it both return this outcome. The flatten step returns the
  concatenated documents, whatever the instance. The sparse-array step returns, whatever
  the instance, the error for the first missing token or what the constructor makes
  of the arrays of all items. The word2vec step returns the same for two
  configurations that agree on its two keys.
\<close>

theorem deterministic_step_own_metadata:
  assumes "is_deterministic S"
  shows "((\<forall>cls. S = FunctionStep cls \<longrightarrow> s_hash cls \<noteq> None) \<longrightarrow>
            checkpoint_is_valid S (get_checkpoint_metadata S) = Inr True)
     \<and> (\<forall>cls. S = FunctionStep cls \<and> s_hash cls = None \<longrightarrow>
            checkpoint_is_valid S (get_checkpoint_metadata S) = Inr False)
     \<and> (\<forall>cls. S = FunctionStep cls \<longrightarrow> s_pure cls)
     \<and> (\<forall>cls. S = FunctionStep cls
            \<and> (\<forall>w'. fst (fn_call (s_function cls) self inputs (i_config self) w') = outcome) \<longrightarrow>
          fst (FunctionStepBase_execute cls self inputs w) = outcome
          \<and> fst (FunctionStepBase_execute cls self inputs
                   (snd (FunctionStepBase_execute cls self inputs w))) = outcome)
     \<and> (S = FlattenedStep \<and> labelled ''documents'' = Some documents \<longrightarrow>
          Flattened_execute flattened labelled = Inr (map concat documents)
          \<and> Flattened_execute flattened' labelled = Inr (map concat documents))
     \<and> (S = DictToSparseArrayStep
            \<and> in_word_to_index_dictionary arrays = Some word_to_index
            \<and> in_documents arrays = Some counted \<longrightarrow>
          (\<exists>outcome'.
             outcome' = (case missing_token word_to_index counted of
                 Some token \<Rightarrow> Inl (ValueError (''Dictionary has no entry for word: '' @ token))
               | None \<Rightarrow>
                   csr_array build
                     (concat (map (map snd) counted), document_rows 0 counted,
                      map (\<lambda>item. the (word_to_index (fst item))) (concat counted)))
             \<and> DictToSparseArray_execute build encoder arrays = outcome'
             \<and> DictToSparseArray_execute build encoder' arrays = outcome'))
     \<and> (S = Word2VecEncoderStep
            \<and> get_casted' ''params.unknown-word-policy''
                = get_casted ''params.unknown-word-policy''
            \<and> get_casted' ''params.unknown-word-replacement''
                = get_casted ''params.unknown-word-replacement'' \<longrightarrow>
          Word2VecEncoder_execute get_casted' vstack_rows vstack_blocks words
            = Word2VecEncoder_execute get_casted vstack_rows vstack_blocks words)"
proof -
  have valid: "checkpoint_is_valid S (get_checkpoint_metadata S)
      = Inr (case S of FunctionStep cls \<Rightarrow> s_hash cls \<noteq> None | _ \<Rightarrow> True)"
    by (cases S)
      (simp_all add: own_metadata_valid Flattened_checkpoint_is_valid_def
        Word2VecEncoder_checkpoint_is_valid_def DictToSparseArray_checkpoint_is_valid_def)
  have 1: "(\<forall>cls. S = FunctionStep cls \<longrightarrow> s_hash cls \<noteq> None) \<longrightarrow>
      checkpoint_is_valid S (get_checkpoint_metadata S) = Inr True"
    unfolding valid by (cases S) simp_all
  have 2: "\<forall>cls. S = FunctionStep cls \<and> s_hash cls = None \<longrightarrow>
      checkpoint_is_valid S (get_checkpoint_metadata S) = Inr False"
    unfolding valid by (cases S) simp_all
  have 3: "\<forall>cls. S = FunctionStep cls \<longrightarrow> s_pure cls"
    using assms by (auto simp: FunctionStepBase_is_deterministic_def)
  have 4: "\<forall>cls. S = FunctionStep cls
        \<and> (\<forall>w'. fst (fn_call (s_function cls) self inputs (i_config self) w') = outcome) \<longrightarrow>
      fst (FunctionStepBase_execute cls self inputs w) = outcome
      \<and> fst (FunctionStepBase_execute cls self inputs
               (snd (FunctionStepBase_execute cls self inputs w))) = outcome"
    by (simp add: FunctionStepBase_execute_def)
  have 5: "S = FlattenedStep \<and> labelled ''documents'' = Some documents \<longrightarrow>
      Flattened_execute flattened labelled = Inr (map concat documents)
      \<and> Flattened_execute flattened' labelled = Inr (map concat documents)"
    by (simp add: Flattened_execute_def)
  have 6: "S = DictToSparseArrayStep
        \<and> in_word_to_index_dictionary arrays = Some word_to_index
        \<and> in_documents arrays = Some counted \<longrightarrow>
      (\<exists>outcome'.
         outcome' = (case missing_token word_to_index counted of
             Some token \<Rightarrow> Inl (ValueError (''Dictionary has no entry for word: '' @ token))
           | None \<Rightarrow>
               csr_array build
                 (concat (map (map snd) counted), document_rows 0 counted,
                  map (\<lambda>item. the (word_to_index (fst item))) (concat counted)))
         \<and> DictToSparseArray_execute build encoder arrays = outcome'
         \<and> DictToSparseArray_execute build encoder' arrays = outcome')"
    by (simp add: DictToSparseArray_execute_result)
  have 7: "S = Word2VecEncoderStep
        \<and> get_casted' ''params.unknown-word-policy''
            = get_casted ''params.unknown-word-policy''
        \<and> get_casted' ''params.unknown-word-replacement''
            = get_casted ''params.unknown-word-replacement'' \<longrightarrow>
      Word2VecEncoder_execute get_casted' vstack_rows vstack_blocks words
        = Word2VecEncoder_execute get_casted vstack_rows vstack_blocks words"
    by (auto intro: Word2VecEncoder_execute_keys)
  from 1 2 3 4 5 6 7 show ?thesis by blast
qed

text \<open>
  The step that wraps \<open>double\<close>, built with \<open>is_pure=True\<close>: it accepts its own metadata,
  and two executions in a row on the input 4 both return 8. The flatten step accepts
  its own metadata.
\<close>

theorem deterministic_step_own_metadata_witness:
  "checkpoint_is_valid (FunctionStep (wrapped True double_function (Some 39)))
     (get_checkpoint_metadata (FunctionStep (wrapped True double_function (Some 39))))
     = Inr True
   \<and> fst (FunctionStepBase_execute (wrapped True double_function (Some 39)) no_config
            [PInt 4] empty_filesystem) = Inr (PInt 8)
   \<and> fst (FunctionStepBase_execute (wrapped True double_function (Some 39)) no_config
            [PInt 4]
            (snd (FunctionStepBase_execute (wrapped True double_function (Some 39))
                    no_config [PInt 4] empty_filesystem))) = Inr (PInt 8)
   \<and> checkpoint_is_valid (FlattenedStep :: (world, config) step)
       (get_checkpoint_metadata (FlattenedStep :: (world, config) step)) = Inr True"
proof -
  let ?cls = "wrapped True double_function (Some 39)"
  have "is_deterministic (FunctionStep ?cls)"
    by (simp add: wrapped_sel FunctionStepBase_is_deterministic_def)
  note adapter = deterministic_step_own_metadata [OF this,
      where self = no_config and inputs = "[PInt 4]" and outcome = "Inr (PInt 8)"
        and w = empty_filesystem]
  have call: "\<forall>w'. fst (fn_call (s_function ?cls) no_config [PInt 4] (i_config no_config) w')
      = Inr (PInt 8)"
    by (simp add: wrapped_sel double_function_def)
  have "is_deterministic (FlattenedStep :: (world, config) step)"
    by (simp add: Flattened_is_deterministic_def)
  note flattened = deterministic_step_own_metadata [OF this]
  from adapter [THEN conjunct1]
  have a: "checkpoint_is_valid (FunctionStep ?cls) (get_checkpoint_metadata (FunctionStep ?cls))
      = Inr True"
    by (simp add: wrapped_sel)
  from adapter [THEN conjunct2, THEN conjunct2, THEN conjunct2, THEN conjunct1] call
  have b: "fst (FunctionStepBase_execute ?cls no_config [PInt 4] empty_filesystem)
        = Inr (PInt 8)
      \<and> fst (FunctionStepBase_execute ?cls no_config [PInt 4]
               (snd (FunctionStepBase_execute ?cls no_config [PInt 4] empty_filesystem)))
          = Inr (PInt 8)"
    by blast
  from flattened [THEN conjunct1]
  have c: "checkpoint_is_valid (FlattenedStep :: (world, config) step)
      (get_checkpoint_metadata (FlattenedStep :: (world, config) step)) = Inr True"
    by simp
  from a b c show ?thesis by simp
qed

subsection \<open>The identity fingerprint\<close>







end
